theory Spec2Isabelle
  imports Main "HOL-Library.Word" "HOL-Library.Sublist" "HOL-Library.AList"
begin

section \<open>Strings and the two string operations of the interceptor\<close>

text \<open>
  A JavaScript string is a sequence of UTF-16 code units. A literal of the source is
  written \<open>js ''...''\<close>: every character of the literals in \<open>src/index.ts\<close> is ASCII,
  whose code unit is its character code.
\<close>

type_synonym js_string = "16 word list"

definition js :: "string \<Rightarrow> js_string" where
  "js s = map of_char s"

text \<open>\<open>String.prototype.includes\<close>: does \<open>t\<close> occur in \<open>s\<close> at some position.\<close>

fun str_includes :: "js_string \<Rightarrow> js_string \<Rightarrow> bool" where
  "str_includes [] t = (t = [])"
| "str_includes (c # cs) t = (prefix t (c # cs) \<or> str_includes cs t)"

text \<open>
  The character classes of the regular expression \<open>/Send\s+([\d.]+)\s+PAY/\<close>
  (no flags): \<open>\d\<close> is \<open>[0-9]\<close>, \<open>\s\<close> is the white space and line terminators
  of ECMAScript, \<open>[\d.]\<close> adds the full stop.
\<close>

definition isDigit :: "16 word \<Rightarrow> bool" where
  "isDigit c \<longleftrightarrow> 0x30 \<le> c \<and> c \<le> 0x39"

definition isSpace :: "16 word \<Rightarrow> bool" where
  "isSpace c \<longleftrightarrow>
     c = 0x09 \<or> c = 0x0A \<or> c = 0x0B \<or> c = 0x0C \<or> c = 0x0D \<or> c = 0x20 \<or> c = 0xA0 \<or>
     c = 0x1680 \<or> (0x2000 \<le> c \<and> c \<le> 0x200A) \<or> c = 0x2028 \<or> c = 0x2029 \<or>
     c = 0x202F \<or> c = 0x205F \<or> c = 0x3000 \<or> c = 0xFEFF"

definition isAmountChar :: "16 word \<Rightarrow> bool" where
  "isAmountChar c \<longleftrightarrow> isDigit c \<or> c = 0x2E"

fun stripPrefix :: "js_string \<Rightarrow> js_string \<Rightarrow> js_string option" where
  "stripPrefix [] s = Some s"
| "stripPrefix (p # ps) [] = None"
| "stripPrefix (p # ps) (c # cs) = (if p = c then stripPrefix ps cs else None)"

text \<open>
  The regular expression tried at the start of \<open>s\<close>; the result is capture group 1.
  The three classes \<open>\s\<close>, \<open>[\d.]\<close> and the letter \<open>P\<close> are pairwise disjoint, so
  each greedy \<open>+\<close> takes the whole run and backtracking into a shorter run can never
  succeed: the match is the one computed here (lemma \<open>matchAt_iff\<close> below).
\<close>

definition matchAt :: "js_string \<Rightarrow> js_string option" where
  "matchAt s =
     (case stripPrefix (js ''Send'') s of
        None \<Rightarrow> None
      | Some r1 \<Rightarrow>
          let r2 = dropWhile isSpace r1;
              g = takeWhile isAmountChar r2;
              r3 = dropWhile isAmountChar r2;
              r4 = dropWhile isSpace r3
          in if takeWhile isSpace r1 \<noteq> [] \<and> g \<noteq> [] \<and> takeWhile isSpace r3 \<noteq> []
                \<and> prefix (js ''PAY'') r4
             then Some g else None)"

text \<open>
  \<open>description.match(/Send\s+([\d.]+)\s+PAY/)\<close>: the leftmost position at which the
  expression matches; \<open>None\<close> is JavaScript's \<open>null\<close>, \<open>Some g\<close> a match array whose
  element 1 is \<open>g\<close>.
\<close>

fun amountMatch :: "js_string \<Rightarrow> js_string option" where
  "amountMatch [] = None"
| "amountMatch (c # cs) =
     (case matchAt (c # cs) of Some g \<Rightarrow> Some g | None \<Rightarrow> amountMatch cs)"

section \<open>Data model (\<open>src/types.ts\<close>)\<close>

text \<open>
  The fields have their declared TypeScript types; a string is falsy exactly when it
  is empty. \<open>extra\<close> is declared \<open>any\<close>: the code reads \<open>extra?.name\<close> only, so it is
  an optional object with an optional name. \<open>outputSchema\<close> is never read.
\<close>

record pay402_extra =
  name :: "js_string option"

record pay402_accept =
  scheme :: js_string
  network :: js_string
  maxAmountRequired :: js_string
  resource :: js_string
  description :: js_string
  mimeType :: js_string
  payTo :: js_string
  maxTimeoutSeconds :: int
  asset :: js_string
  outputSchema :: js_string
  extra :: "pay402_extra option"

record pay402_response =
  x402Version :: int
  error :: js_string
  accepts :: "pay402_accept list"

record payment_option =
  amount :: js_string
  currency :: js_string
  option_payTo :: js_string

section \<open>Matching and extraction (\<open>src/index.ts\<close>, lines 26--60)\<close>

definition targetDescription :: js_string where
  "targetDescription = js ''PAY402 is detected on this server for gas-free transfers''"

text \<open>The predicate of \<open>find\<close>: \<open>opt.description && opt.description.includes(...)\<close>.\<close>

definition isTarget :: "pay402_accept \<Rightarrow> bool" where
  "isTarget opt \<longleftrightarrow> description opt \<noteq> [] \<and> str_includes (description opt) targetDescription"

text \<open>
  Lines 28--37: \<open>acceptOption\<close> stays \<open>null\<close> unless the body, its \<open>accepts\<close> and an
  entry with the target description are there; \<open>find\<close> returns the first such entry.
\<close>

definition acceptOption :: "pay402_response option \<Rightarrow> pay402_accept option" where
  "acceptOption data =
     (case data of
        None \<Rightarrow> None
      | Some d \<Rightarrow> if length (accepts d) > 0 then find isTarget (accepts d) else None)"

text \<open>Lines 40--60: the list \<open>pricing\<close> built from the matched entry.\<close>

text \<open>\<open>acceptOption.extra?.name\<close>: \<open>None\<close> is \<open>undefined\<close>.\<close>

definition extraName :: "pay402_accept \<Rightarrow> js_string option" where
  "extraName a = (case extra a of None \<Rightarrow> None | Some e \<Rightarrow> name e)"

definition pricing :: "pay402_accept \<Rightarrow> payment_option list" where
  "pricing a =
     (case amountMatch (description a) of
        Some g \<Rightarrow>
          if g \<noteq> [] then [\<lparr>amount = g, currency = js ''PAY'', option_payTo = payTo a\<rparr>]
          else []
      | None \<Rightarrow> [])
     @
     (if maxAmountRequired a \<noteq> [] \<and> asset a \<noteq> []
      then [\<lparr>amount = maxAmountRequired a,
             currency = (case extraName a of
                           None \<Rightarrow> asset a
                         | Some n \<Rightarrow> if n \<noteq> [] then n else asset a),
             option_payTo = payTo a\<rparr>]
      else [])"

section \<open>The failure handler (\<open>src/index.ts\<close>, lines 22--86)\<close>

text \<open>
  The request configuration of the client (\<open>http_method\<close> is its \<open>method\<close>,
  \<open>body\<close> its \<open>data\<close>). The handler touches \<open>headers\<close> only; the
  record is extensible, so \<open>'z\<close> stands for every field not listed. \<open>headers\<close> is an
  object used as a dictionary: an association list in insertion order, absent when
  the configuration has none.
\<close>

record request_config =
  url :: js_string
  http_method :: js_string
  headers :: "(js_string \<times> js_string) list option"
  body :: "js_string option"

record axios_response =
  status :: int
  data :: "pay402_response option"

record 'z axios_error =
  message :: js_string
  response :: "axios_response option"
  config :: "'z request_config_scheme option"

text \<open>
  What a promise is rejected with: an \<open>AxiosError\<close>, or any other thrown value (a
  string, an \<open>Error\<close>), kept as text. A promise is fulfilled, rejected, or never
  settles.
\<close>

datatype 'z rejection = AxiosFailure "'z axios_error" | OtherFailure js_string

datatype ('a, 'z) promise = Fulfilled 'a | Rejected "'z rejection" | Pending

text \<open>
  The two collaborators the handler calls: the caller's \<open>signTransaction\<close> and
  \<open>axiosInstance.request\<close>. Both are given by what their promise settles to; a
  synchronous throw inside the \<open>try\<close> block is caught like a rejection, so it is a
  \<open>Rejected\<close> too. \<open>'r\<close> is the client's response type.
\<close>

record ('r, 'z) collaborators =
  signTransaction :: "payment_option list \<Rightarrow> js_string \<Rightarrow> (js_string, 'z) promise"
  request :: "'z request_config_scheme \<Rightarrow> ('r, 'z) promise"

datatype 'z call =
    is_SignTransaction: SignTransaction "payment_option list" js_string
  | is_Request: Request "'z request_config_scheme"

text \<open>
  One run of the handler gives what its promise settles to, the calls it made to the
  collaborators, in order, and the error object as the run leaves it (the handler
  assigns to \<open>error.config.headers\<close>).
\<close>

record ('r, 'z) handled =
  outcome :: "('r, 'z) promise"
  calls :: "'z call list"
  error_after :: "'z axios_error"

text \<open>Line 85, \<open>return Promise.reject(error)\<close>, after the calls made so far.\<close>

definition rejectOriginal :: "'z axios_error \<Rightarrow> 'z call list \<Rightarrow> ('r, 'z) handled" where
  "rejectOriginal err cs = \<lparr>outcome = Rejected (AxiosFailure err), calls = cs, error_after = err\<rparr>"

text \<open>Lines 70--73: create the header object if there is none, then assign \<open>x-pay402\<close>.\<close>

definition setPay402Header :: "js_string \<Rightarrow> 'z request_config_scheme \<Rightarrow> 'z request_config_scheme" where
  "setPay402Header transactionId cfg =
     cfg\<lparr>headers :=
           Some (AList.update (js ''x-pay402'') transactionId
                   (case headers cfg of None \<Rightarrow> [] | Some h \<Rightarrow> h))\<rparr>"

definition onRejected :: "('r, 'z) collaborators \<Rightarrow> 'z axios_error \<Rightarrow> ('r, 'z) handled" where
  "onRejected env err =
     (case response err of
        None \<Rightarrow> rejectOriginal err []
      | Some resp \<Rightarrow>
          if status resp = 402 then
            (case acceptOption (data resp) of
               None \<Rightarrow> rejectOriginal err []
             | Some a \<Rightarrow>
                 if length (pricing a) > 0 then
                   (case signTransaction env (pricing a) (resource a) of
                      Pending \<Rightarrow>
                        \<lparr>outcome = Pending,
                         calls = [SignTransaction (pricing a) (resource a)],
                         error_after = err\<rparr>
                    | Rejected signError \<Rightarrow>
                        \<lparr>outcome = Rejected signError,
                         calls = [SignTransaction (pricing a) (resource a)],
                         error_after = err\<rparr>
                    | Fulfilled transactionId \<Rightarrow>
                        (case config err of
                           None \<Rightarrow> rejectOriginal err [SignTransaction (pricing a) (resource a)]
                         | Some cfg \<Rightarrow>
                             \<lparr>outcome = request env (setPay402Header transactionId cfg),
                              calls = [SignTransaction (pricing a) (resource a),
                                       Request (setPay402Header transactionId cfg)],
                              error_after = err\<lparr>config := Some (setPay402Header transactionId cfg)\<rparr>\<rparr>))
                 else rejectOriginal err [])
          else rejectOriginal err [])"

text \<open>The success handler, line 21.\<close>

definition onFulfilled :: "'r \<Rightarrow> 'r" where
  "onFulfilled r = r"

section \<open>Setup (\<open>src/index.ts\<close>, lines 6--20 and 89)\<close>

text \<open>
  Client instances are objects, named by references into a store. An instance holds
  its response interceptors in the order of registration. The pair of handlers that
  \<open>withPay402Interceptor\<close> registers is a closure over \<open>axiosInstance\<close> and
  \<open>signTransaction\<close>; its failure handler is \<open>onRejected\<close> with that callback and
  that instance's \<open>request\<close>. \<open>'o\<close> stands for the interceptors of others.
\<close>

type_synonym ref = nat

datatype ('s, 'o) interceptor = Pay402Interceptor ref 's | OtherInterceptor 'o

record ('s, 'o) axios_instance =
  response_interceptors :: "('s, 'o) interceptor list"

type_synonym ('s, 'o) store = "ref \<Rightarrow> ('s, 'o) axios_instance"

text \<open>\<open>axiosInstance.interceptors.response.use\<close>: the pair is added after the others.\<close>

definition use :: "ref \<Rightarrow> ('s, 'o) interceptor \<Rightarrow> ('s, 'o) store \<Rightarrow> ('s, 'o) store" where
  "use inst h \<sigma> =
     \<sigma>(inst := (\<sigma> inst)\<lparr>response_interceptors := response_interceptors (\<sigma> inst) @ [h]\<rparr>)"

text \<open>
  \<open>withPaymentInterceptor\<close> of \<open>x402-axios\<close> is not part of the repository (only its
  declaration is): it is a parameter, any function that changes the store.
\<close>

definition withPay402Interceptor ::
  "(ref \<Rightarrow> 'w \<Rightarrow> ('s, 'o) store \<Rightarrow> ('s, 'o) store) \<Rightarrow>
   ref \<Rightarrow> 's \<Rightarrow> 'w \<Rightarrow> ('s, 'o) store \<Rightarrow> ref \<times> ('s, 'o) store" where
  "withPay402Interceptor withPaymentInterceptor axiosInstance signTransaction' walletClient \<sigma> =
     (let \<sigma>1 = withPaymentInterceptor axiosInstance walletClient \<sigma>;
          \<sigma>2 = use axiosInstance (Pay402Interceptor axiosInstance signTransaction') \<sigma>1
      in (axiosInstance, \<sigma>2))"

section \<open>Concrete inputs\<close>

text \<open>
  The two challenges of \<open>test/verify.ts\<close> (scenario A with the target description,
  scenario B without it), the failure the mock adapter throws for them, and the
  test's callback and adapter as collaborators.
\<close>

definition descriptionA :: js_string where
  "descriptionA = js ''PAY402 is detected on this server for gas-free transfers. Send 0.066 PAY or the USDC amount via 100Pay Internal transfer.''"

definition acceptA :: pay402_accept where
  "acceptA =
     \<lparr>scheme = js ''exact'', network = js ''base'', maxAmountRequired = js ''14000'',
      resource = js ''http://localhost:3000/api/pay-for-order'',
      description = descriptionA, mimeType = [],
      payTo = js ''0x37ffc90BDb5B0c3aCF8beCCCe4AA7e7d74ab38Ba'', maxTimeoutSeconds = 60,
      asset = js ''0x833589fCD6eDb6E08f4c7C32D4f71b54bdA02913'',
      outputSchema = js ''{input:{type:http,method:POST,discoverable:true}}'',
      extra = Some \<lparr>name = Some (js ''USD Coin'')\<rparr>\<rparr>"

definition acceptB :: pay402_accept where
  "acceptB =
     \<lparr>scheme = js ''exact'', network = js ''base'', maxAmountRequired = js ''100'',
      resource = js ''http://localhost:3000/api/other'',
      description = js ''Standard x402 payment required.'', mimeType = [],
      payTo = js ''0x123...'', maxTimeoutSeconds = 60, asset = js ''0x...'',
      outputSchema = js ''{}'', extra = Some \<lparr>name = None\<rparr>\<rparr>"

text \<open>Scenario A with an empty \<open>extra.name\<close>, and with neither amount pattern nor asset.\<close>

definition acceptEmptyName :: pay402_accept where
  "acceptEmptyName = acceptA\<lparr>extra := Some \<lparr>name = Some []\<rparr>\<rparr>"

definition acceptNoOption :: pay402_accept where
  "acceptNoOption = acceptA\<lparr>description := targetDescription, asset := []\<rparr>"

definition challenge :: "pay402_accept list \<Rightarrow> pay402_response" where
  "challenge as = \<lparr>x402Version = 1, error = js ''X-PAYMENT header is required'', accepts = as\<rparr>"

definition configA :: request_config where
  "configA =
     \<lparr>url = js ''/protected-resource-custom'', http_method = js ''get'',
      headers = Some [(js ''Accept'', js ''application/json''), (js ''X-Trace'', js ''7'')],
      body = None\<rparr>"

definition failure :: "int \<Rightarrow> pay402_accept list \<Rightarrow> request_config option \<Rightarrow> unit axios_error" where
  "failure st as cfg =
     \<lparr>message = js ''Request failed'',
      response = Some \<lparr>status = st, data = Some (challenge as)\<rparr>,
      config = cfg\<rparr>"

definition networkError :: "unit axios_error" where
  "networkError = \<lparr>message = js ''Network Error'', response = None, config = Some configA\<rparr>"

text \<open>
  The callback of the test resolves with \<open>valid-tx-id\<close> when it is offered the two
  options of scenario A, and rejects with a string otherwise; the mock adapter answers
  200 to a request that carries that token and throws the 402 of scenario A otherwise.
\<close>

definition testSign :: "payment_option list \<Rightarrow> js_string \<Rightarrow> (js_string, unit) promise" where
  "testSign pr res =
     (case (find (\<lambda>p. currency p = js ''PAY'') pr, find (\<lambda>p. currency p = js ''USD Coin'') pr) of
        (Some payOption, Some usdcOption) \<Rightarrow>
          if amount payOption = js ''0.066'' \<and> option_payTo payOption = payTo acceptA \<and>
             amount usdcOption = js ''14000'' \<and> option_payTo usdcOption = payTo acceptA \<and>
             res = js ''http://localhost:3000/api/pay-for-order''
          then Fulfilled (js ''valid-tx-id'')
          else Rejected (OtherFailure (js ''Invalid transaction details''))
      | _ \<Rightarrow> Rejected (OtherFailure (js ''Invalid transaction details'')))"

definition testRequest :: "request_config \<Rightarrow> (axios_response, unit) promise" where
  "testRequest cfg =
     (if map_of (case headers cfg of None \<Rightarrow> [] | Some h \<Rightarrow> h) (js ''x-pay402'')
           = Some (js ''valid-tx-id'')
      then Fulfilled \<lparr>status = 200, data = None\<rparr>
      else Rejected (AxiosFailure (failure 402 [acceptA] (Some cfg))))"

definition testEnv :: "(axios_response, unit) collaborators" where
  "testEnv = \<lparr>signTransaction = testSign, request = testRequest\<rparr>"

text \<open>A payer that resolves with a token a server does not accept: the retry gets the
  402 of scenario A again. A payer that never pays.\<close>

definition staleEnv :: "(axios_response, unit) collaborators" where
  "staleEnv = \<lparr>signTransaction = (\<lambda>pr res. Fulfilled (js ''stale'')), request = testRequest\<rparr>"

definition refusingEnv :: "(axios_response, unit) collaborators" where
  "refusingEnv =
     \<lparr>signTransaction = (\<lambda>pr res. Rejected (OtherFailure (js ''No suitable payment option found''))),
      request = testRequest\<rparr>"

definition slowEnv :: "(axios_response, unit) collaborators" where
  "slowEnv = \<lparr>signTransaction = (\<lambda>pr res. Pending), request = testRequest\<rparr>"

text \<open>
  A fallback that registers one interceptor of its own, as \<open>x402-axios\<close> does, and a
  store whose instances have no interceptor yet.
\<close>

definition x402Fallback :: "ref \<Rightarrow> string \<Rightarrow> (string, string) store \<Rightarrow> (string, string) store" where
  "x402Fallback inst walletClient \<sigma> = use inst (OtherInterceptor walletClient) \<sigma>"

definition freshStore :: "(string, string) store" where
  "freshStore = (\<lambda>r. \<lparr>response_interceptors = []\<rparr>)"

text \<open>
  Scenario A without asset and with an amount of several full stops after the marker.
\<close>

definition acceptSeveralPoints :: pay402_accept where
  "acceptSeveralPoints =
     acceptA\<lparr>description := targetDescription @ js ''. Send 1.2.3 PAY'', asset := []\<rparr>"

section \<open>The client that serves the reissued request\<close>


section \<open>Facts about the string operations\<close>

text \<open>\<open>includes\<close> is the sublist relation of the library.\<close>

lemma str_includes_sublist: "str_includes s t \<longleftrightarrow> sublist t s"
  by (induction s) (auto simp: sublist_Cons_right)

lemma stripPrefix_Some_iff: "stripPrefix p s = Some r \<longleftrightarrow> s = p @ r"
  by (induction p s rule: stripPrefix.induct) auto

lemma amountChar_not_space: "isAmountChar c \<Longrightarrow> \<not> isSpace c"
  by (auto simp: isSpace_def isAmountChar_def isDigit_def word_le_nat_alt)

lemma P_not_space: "\<not> isSpace 0x50"
  by (simp add: isSpace_def)

lemma js_PAY: "js ''PAY'' = [0x50, 0x41, 0x59]"
  by (simp add: js_def)

lemma takeWhile_run:
  "\<forall>x\<in>set xs. P x \<Longrightarrow> ys = [] \<or> \<not> P (hd ys) \<Longrightarrow> takeWhile P (xs @ ys) = xs"
  by (cases ys) (simp_all add: takeWhile_append2)

lemma dropWhile_run:
  "\<forall>x\<in>set xs. P x \<Longrightarrow> ys = [] \<or> \<not> P (hd ys) \<Longrightarrow> dropWhile P (xs @ ys) = ys"
  by (cases ys) (simp_all add: dropWhile_append2)

lemma matchAt_Some_chars:
  "matchAt s = Some g \<Longrightarrow> g \<noteq> [] \<and> (\<forall>c\<in>set g. isAmountChar c)"
  by (auto simp: matchAt_def Let_def split: option.splits if_splits dest: set_takeWhileD)

lemma amountMatch_Some_chars:
  "amountMatch d = Some g \<Longrightarrow> g \<noteq> [] \<and> (\<forall>c\<in>set g. isAmountChar c)"
  by (induction d) (auto split: option.splits dest: matchAt_Some_chars)

text \<open>
  The greedy computation of \<open>matchAt\<close> finds a match exactly when the string
  decomposes as the regular expression says, and the group is the one of that
  decomposition.
\<close>

lemma matchAt_iff:
  "matchAt s = Some g \<longleftrightarrow>
     (\<exists>w1 w2 rest. s = js ''Send'' @ w1 @ g @ w2 @ js ''PAY'' @ rest \<and>
        w1 \<noteq> [] \<and> (\<forall>c\<in>set w1. isSpace c) \<and>
        g \<noteq> [] \<and> (\<forall>c\<in>set g. isAmountChar c) \<and>
        w2 \<noteq> [] \<and> (\<forall>c\<in>set w2. isSpace c))"
  (is "?L \<longleftrightarrow> ?R")
proof
  assume ?L
  then obtain r1 where r1: "s = js ''Send'' @ r1"
    and sp1: "takeWhile isSpace r1 \<noteq> []"
    and g: "g = takeWhile isAmountChar (dropWhile isSpace r1)" "g \<noteq> []"
    and sp2: "takeWhile isSpace (dropWhile isAmountChar (dropWhile isSpace r1)) \<noteq> []"
    and pay: "prefix (js ''PAY'') (dropWhile isSpace (dropWhile isAmountChar (dropWhile isSpace r1)))"
    by (auto simp: matchAt_def Let_def stripPrefix_Some_iff split: option.splits if_splits)
  from pay obtain rest where rest:
    "dropWhile isSpace (dropWhile isAmountChar (dropWhile isSpace r1)) = js ''PAY'' @ rest"
    by (auto simp: prefix_def)
  let ?w1 = "takeWhile isSpace r1"
  let ?w2 = "takeWhile isSpace (dropWhile isAmountChar (dropWhile isSpace r1))"
  have "r1 = ?w1 @ g @ ?w2 @ js ''PAY'' @ rest"
    using g(1) rest by (metis takeWhile_dropWhile_id)
  moreover have "\<forall>c\<in>set ?w1. isSpace c" "\<forall>c\<in>set ?w2. isSpace c" "\<forall>c\<in>set g. isAmountChar c"
    using g(1) by (auto dest: set_takeWhileD)
  ultimately show ?R using r1 sp1 sp2 g(2) by blast
next
  assume ?R
  then obtain w1 w2 rest where s: "s = js ''Send'' @ w1 @ g @ w2 @ js ''PAY'' @ rest"
    and w1: "w1 \<noteq> []" "\<forall>c\<in>set w1. isSpace c"
    and g: "g \<noteq> []" "\<forall>c\<in>set g. isAmountChar c"
    and w2: "w2 \<noteq> []" "\<forall>c\<in>set w2. isSpace c"
    by blast
  let ?r1 = "w1 @ g @ w2 @ js ''PAY'' @ rest"
  have hdg: "\<not> isSpace (hd (g @ w2 @ js ''PAY'' @ rest))"
    using g by (cases g) (auto dest: amountChar_not_space)
  have hdw2: "\<not> isAmountChar (hd (w2 @ js ''PAY'' @ rest))"
    using w2 by (cases w2) (auto dest: amountChar_not_space)
  have hdP: "\<not> isSpace (hd (js ''PAY'' @ rest))"
    by (simp add: js_PAY P_not_space)
  have t1: "takeWhile isSpace ?r1 = w1" and d1: "dropWhile isSpace ?r1 = g @ w2 @ js ''PAY'' @ rest"
    by (rule takeWhile_run[OF w1(2) disjI2[OF hdg]], rule dropWhile_run[OF w1(2) disjI2[OF hdg]])
  have t2: "takeWhile isAmountChar (g @ w2 @ js ''PAY'' @ rest) = g"
    and d2: "dropWhile isAmountChar (g @ w2 @ js ''PAY'' @ rest) = w2 @ js ''PAY'' @ rest"
    by (rule takeWhile_run[OF g(2) disjI2[OF hdw2]], rule dropWhile_run[OF g(2) disjI2[OF hdw2]])
  have t3: "takeWhile isSpace (w2 @ js ''PAY'' @ rest) = w2"
    and d3: "dropWhile isSpace (w2 @ js ''PAY'' @ rest) = js ''PAY'' @ rest"
    by (rule takeWhile_run[OF w2(2) disjI2[OF hdP]], rule dropWhile_run[OF w2(2) disjI2[OF hdP]])
  have "stripPrefix (js ''Send'') s = Some ?r1"
    by (simp add: stripPrefix_Some_iff s)
  then show ?L
    using w1(1) g(1) w2(1) by (simp add: matchAt_def Let_def t1 d1 t2 d2 t3 d3)
qed

lemma amountMatch_None_iff:
  "amountMatch d = None \<longleftrightarrow> (\<forall>pre suf. d = pre @ suf \<longrightarrow> matchAt suf = None)"
proof (induction d)
  case Nil
  then show ?case by (simp add: matchAt_def js_def)
next
  case (Cons c cs)
  show ?case
  proof
    assume a: "amountMatch (c # cs) = None"
    then have m: "matchAt (c # cs) = None" and r: "amountMatch cs = None"
      by (auto split: option.splits)
    show "\<forall>pre suf. c # cs = pre @ suf \<longrightarrow> matchAt suf = None"
    proof (intro allI impI)
      fix pre suf assume e: "c # cs = pre @ suf"
      show "matchAt suf = None"
      proof (cases pre)
        case Nil
        then show ?thesis using e m by simp
      next
        case (Cons p ps)
        then have "cs = ps @ suf" using e by simp
        then show ?thesis using r Cons.IH by blast
      qed
    qed
  next
    assume a: "\<forall>pre suf. c # cs = pre @ suf \<longrightarrow> matchAt suf = None"
    then have "matchAt (c # cs) = None" by (metis append_Nil)
    moreover have "\<forall>pre suf. cs = pre @ suf \<longrightarrow> matchAt suf = None"
      using a by (metis append_Cons)
    ultimately show "amountMatch (c # cs) = None"
      using Cons.IH by simp
  qed
qed

lemma amountMatch_Some_suffix:
  "amountMatch d = Some g \<Longrightarrow> \<exists>pre suf. d = pre @ suf \<and> matchAt suf = Some g"
proof (induction d)
  case Nil
  then show ?case by simp
next
  case (Cons c cs)
  show ?case
  proof (cases "matchAt (c # cs)")
    case None
    with Cons.prems have "amountMatch cs = Some g" by simp
    with Cons.IH obtain pre suf where "cs = pre @ suf" "matchAt suf = Some g" by blast
    then have "c # cs = (c # pre) @ suf \<and> matchAt suf = Some g" by simp
    then show ?thesis by blast
  next
    case (Some h)
    with Cons.prems have "c # cs = [] @ (c # cs) \<and> matchAt (c # cs) = Some g" by simp
    then show ?thesis by blast
  qed
qed

text \<open>
  The pattern does not match exactly when the description has no occurrence of
  \<open>Send\<close>, white space, digits and full stops, white space, \<open>PAY\<close>.
\<close>

lemma amountMatch_None_pattern:
  "amountMatch d = None \<longleftrightarrow>
     \<not> (\<exists>pre w1 g w2 rest. d = pre @ js ''Send'' @ w1 @ g @ w2 @ js ''PAY'' @ rest \<and>
        w1 \<noteq> [] \<and> (\<forall>c\<in>set w1. isSpace c) \<and>
        g \<noteq> [] \<and> (\<forall>c\<in>set g. isAmountChar c) \<and>
        w2 \<noteq> [] \<and> (\<forall>c\<in>set w2. isSpace c))"
  (is "?L \<longleftrightarrow> \<not> ?R")
proof
  assume l: ?L
  show "\<not> ?R"
  proof
    assume ?R
    then obtain pre w1 g w2 rest where d: "d = pre @ (js ''Send'' @ w1 @ g @ w2 @ js ''PAY'' @ rest)"
      and c: "w1 \<noteq> []" "\<forall>c\<in>set w1. isSpace c" "g \<noteq> []" "\<forall>c\<in>set g. isAmountChar c"
        "w2 \<noteq> []" "\<forall>c\<in>set w2. isSpace c"
      by auto
    from c have "matchAt (js ''Send'' @ w1 @ g @ w2 @ js ''PAY'' @ rest) = Some g"
      unfolding matchAt_iff by blast
    moreover from l d have "matchAt (js ''Send'' @ w1 @ g @ w2 @ js ''PAY'' @ rest) = None"
      unfolding amountMatch_None_iff by blast
    ultimately show False by simp
  qed
next
  assume r: "\<not> ?R"
  show ?L
    unfolding amountMatch_None_iff
  proof (intro allI impI)
    fix pre suf assume d: "d = pre @ suf"
    show "matchAt suf = None"
    proof (cases "matchAt suf")
      case None
      then show ?thesis .
    next
      case (Some g)
      then obtain w1 w2 rest where "suf = js ''Send'' @ w1 @ g @ w2 @ js ''PAY'' @ rest"
        "w1 \<noteq> []" "\<forall>c\<in>set w1. isSpace c" "g \<noteq> []" "\<forall>c\<in>set g. isAmountChar c"
        "w2 \<noteq> []" "\<forall>c\<in>set w2. isSpace c"
        unfolding matchAt_iff by blast
      with d r show ?thesis by blast
    qed
  qed
qed

lemma find_first:
  "\<forall>e\<in>set pre. \<not> P e \<Longrightarrow> P a \<Longrightarrow> find P (pre @ a # post) = Some a"
  by (induction pre) auto

lemma find_none: "\<forall>e\<in>set xs. \<not> P e \<Longrightarrow> find P xs = None"
  by (simp add: find_None_iff)

section \<open>Facts about matching and the paths of the handler\<close>

lemma targetDescription_nonempty: "targetDescription \<noteq> []"
  by (simp add: targetDescription_def js_def)

lemma isTarget_iff: "isTarget e \<longleftrightarrow> sublist targetDescription (description e)"
proof -
  have "\<not> sublist targetDescription []"
    using targetDescription_nonempty by simp
  then show ?thesis
    by (auto simp: isTarget_def str_includes_sublist)
qed

lemma acceptOption_first:
  assumes "accepts d = pre @ a # post"
    and "\<forall>e\<in>set pre. \<not> sublist targetDescription (description e)"
    and "sublist targetDescription (description a)"
  shows "acceptOption (Some d) = Some a"
  using assms by (simp add: acceptOption_def find_first isTarget_iff)

lemma acceptOption_none:
  assumes "\<forall>e\<in>set (accepts d). \<not> sublist targetDescription (description e)"
  shows "acceptOption (Some d) = None"
  using assms by (simp add: acceptOption_def find_none isTarget_iff)

lemma acceptOption_no_body: "acceptOption None = None"
  by (simp add: acceptOption_def)

lemma onRejected_no_response:
  "response err = None \<Longrightarrow> onRejected env err = rejectOriginal err []"
  by (simp add: onRejected_def)

lemma onRejected_not_402:
  "response err = Some resp \<Longrightarrow> status resp \<noteq> 402 \<Longrightarrow> onRejected env err = rejectOriginal err []"
  by (simp add: onRejected_def)

lemma onRejected_no_match:
  "response err = Some resp \<Longrightarrow> status resp = 402 \<Longrightarrow> acceptOption (data resp) = None \<Longrightarrow>
   onRejected env err = rejectOriginal err []"
  by (simp add: onRejected_def)

lemma onRejected_no_option:
  "response err = Some resp \<Longrightarrow> status resp = 402 \<Longrightarrow> acceptOption (data resp) = Some a \<Longrightarrow>
   pricing a = [] \<Longrightarrow> onRejected env err = rejectOriginal err []"
  by (simp add: onRejected_def)

lemma onRejected_sign:
  assumes "response err = Some resp" "status resp = 402" "acceptOption (data resp) = Some a"
    and "pricing a \<noteq> []"
  shows "onRejected env err =
     (case signTransaction env (pricing a) (resource a) of
        Pending \<Rightarrow>
          \<lparr>outcome = Pending, calls = [SignTransaction (pricing a) (resource a)], error_after = err\<rparr>
      | Rejected signError \<Rightarrow>
          \<lparr>outcome = Rejected signError, calls = [SignTransaction (pricing a) (resource a)],
           error_after = err\<rparr>
      | Fulfilled transactionId \<Rightarrow>
          (case config err of
             None \<Rightarrow> rejectOriginal err [SignTransaction (pricing a) (resource a)]
           | Some cfg \<Rightarrow>
               \<lparr>outcome = request env (setPay402Header transactionId cfg),
                calls = [SignTransaction (pricing a) (resource a),
                         Request (setPay402Header transactionId cfg)],
                error_after = err\<lparr>config := Some (setPay402Header transactionId cfg)\<rparr>\<rparr>))"
  using assms by (simp add: onRejected_def)


lemma pricing_empty_iff:
  "pricing a = [] \<longleftrightarrow> amountMatch (description a) = None \<and> (maxAmountRequired a = [] \<or> asset a = [])"
  by (auto simp: pricing_def split: option.splits dest: amountMatch_Some_chars)

lemma setPay402Header_headers:
  "headers (setPay402Header t cfg) =
     Some (AList.update (js ''x-pay402'') t (case headers cfg of None \<Rightarrow> [] | Some h \<Rightarrow> h))"
  by (simp add: setPay402Header_def)

lemma update_filter_other:
  "filter (\<lambda>kv. fst kv \<noteq> k) (AList.update k v al) = filter (\<lambda>kv. fst kv \<noteq> k) al"
  by (induction al) auto

section \<open>The concrete inputs, evaluated\<close>

lemmas eval_defs = js_def targetDescription_def matchAt_def isSpace_def isDigit_def isAmountChar_def
  acceptOption_def isTarget_def pricing_def extraName_def descriptionA_def acceptA_def acceptB_def
  acceptEmptyName_def acceptNoOption_def challenge_def configA_def failure_def networkError_def

lemma target_in_acceptA: "sublist targetDescription (description acceptA)"
  by (simp add: isTarget_iff[symmetric]) (simp add: eval_defs)


lemma target_in_acceptNoOption: "sublist targetDescription (description acceptNoOption)"
  by (simp add: isTarget_iff[symmetric]) (simp add: eval_defs)

lemma target_not_in_acceptB: "\<not> sublist targetDescription (description acceptB)"
  by (simp add: isTarget_iff[symmetric]) (simp add: eval_defs)

lemma amountMatch_descriptionA: "amountMatch descriptionA = Some (js ''0.066'')"
  by (simp add: eval_defs)

lemma amountMatch_target: "amountMatch targetDescription = None"
  by (simp add: eval_defs)

lemma pricing_acceptA:
  "pricing acceptA =
     [\<lparr>amount = js ''0.066'', currency = js ''PAY'', option_payTo = payTo acceptA\<rparr>,
      \<lparr>amount = js ''14000'', currency = js ''USD Coin'', option_payTo = payTo acceptA\<rparr>]"
  by (simp add: eval_defs)

lemma acceptOption_A: "acceptOption (Some (challenge [acceptA])) = Some acceptA"
  using acceptOption_first[of "challenge [acceptA]" "[]" acceptA "[]"] target_in_acceptA
  by (simp add: challenge_def)

lemma testSign_A: "testSign (pricing acceptA) (resource acceptA) = Fulfilled (js ''valid-tx-id'')"
  by (simp add: pricing_acceptA testSign_def) (simp add: acceptA_def js_def)

section \<open>The claims\<close>




lemma response_failure:
  "response (failure st as cfg) = Some \<lparr>status = st, data = Some (challenge as)\<rparr>"
  by (simp add: failure_def)

lemma config_failure: "config (failure st as cfg) = cfg"
  by (simp add: failure_def)

lemma pricing_acceptA_nonempty: "pricing acceptA \<noteq> []"
  by (simp add: pricing_acceptA)

lemma x_pay402_other: "js ''Accept'' \<noteq> js ''x-pay402''" "js ''X-Trace'' \<noteq> js ''x-pay402''"
  by (simp_all add: js_def)

text \<open>
  Claim C2, as amended. For a matched 402 with a non-empty option list whose error
  carries the request configuration \<open>cfg\<close>: if the payer callback resolves with the
  token \<open>t\<close>, the handler reissues \<open>cfg\<close> through \<open>request\<close> of the same client,
  with a header set in which \<open>x-pay402\<close> is \<open>t\<close> and every other header is as it
  was, and the handler settles exactly as that request does (fulfilled, rejected or
  pending).
\<close>

theorem retry_carries_token:
  assumes "response err = Some resp" and "status resp = 402"
    and "acceptOption (data resp) = Some a" and "pricing a \<noteq> []"
    and "signTransaction env (pricing a) (resource a) = Fulfilled t"
    and "config err = Some cfg"
  shows "\<exists>h'. calls (onRejected env err) =
            [SignTransaction (pricing a) (resource a), Request (cfg\<lparr>headers := Some h'\<rparr>)] \<and>
          map_of h' (js ''x-pay402'') = Some t \<and>
          (\<forall>k. k \<noteq> js ''x-pay402'' \<longrightarrow>
             map_of h' k = map_of (case headers cfg of None \<Rightarrow> [] | Some h \<Rightarrow> h) k) \<and>
          outcome (onRejected env err) = request env (cfg\<lparr>headers := Some h'\<rparr>)"
proof -
  let ?h = "AList.update (js ''x-pay402'') t (case headers cfg of None \<Rightarrow> [] | Some h \<Rightarrow> h)"
  have "setPay402Header t cfg = cfg\<lparr>headers := Some ?h\<rparr>"
    by (simp add: setPay402Header_def)
  with onRejected_sign[OF assms(1-4), of env] assms(5,6)
  have "calls (onRejected env err) =
          [SignTransaction (pricing a) (resource a), Request (cfg\<lparr>headers := Some ?h\<rparr>)]"
    and "outcome (onRejected env err) = request env (cfg\<lparr>headers := Some ?h\<rparr>)"
    by simp_all
  moreover have "map_of ?h (js ''x-pay402'') = Some t"
    by (simp add: update_conv')
  moreover have "\<forall>k. k \<noteq> js ''x-pay402'' \<longrightarrow>
      map_of ?h k = map_of (case headers cfg of None \<Rightarrow> [] | Some h \<Rightarrow> h) k"
    by (simp add: update_conv')
  ultimately show ?thesis by blast
qed

text \<open>
  Witness for C2: scenario A of the test; the mock adapter sees the token and answers
  200, which is the result of the handler.
\<close>

theorem retry_carries_token_witness:
  "response (failure 402 [acceptA] (Some configA))
     = Some \<lparr>status = 402, data = Some (challenge [acceptA])\<rparr> \<and>
   acceptOption (Some (challenge [acceptA])) = Some acceptA \<and>
   pricing acceptA \<noteq> [] \<and>
   signTransaction testEnv (pricing acceptA) (resource acceptA) = Fulfilled (js ''valid-tx-id'') \<and>
   config (failure 402 [acceptA] (Some configA)) = Some configA \<and>
   (\<exists>h'. calls (onRejected testEnv (failure 402 [acceptA] (Some configA))) =
            [SignTransaction (pricing acceptA) (resource acceptA),
             Request (configA\<lparr>headers := Some h'\<rparr>)] \<and>
          map_of h' (js ''x-pay402'') = Some (js ''valid-tx-id'') \<and>
          map_of h' (js ''Accept'') = Some (js ''application/json'') \<and>
          map_of h' (js ''X-Trace'') = Some (js ''7'')) \<and>
   outcome (onRejected testEnv (failure 402 [acceptA] (Some configA)))
     = Fulfilled \<lparr>status = 200, data = None\<rparr>"
proof -
  let ?err = "failure 402 [acceptA] (Some configA)"
  let ?resp = "\<lparr>status = 402, data = Some (challenge [acceptA])\<rparr>"
  have h1: "response ?err = Some ?resp" by (rule response_failure)
  have h2: "status ?resp = 402" by simp
  have h3: "acceptOption (data ?resp) = Some acceptA" using acceptOption_A by simp
  have h5: "signTransaction testEnv (pricing acceptA) (resource acceptA) = Fulfilled (js ''valid-tx-id'')"
    using testSign_A by (simp add: testEnv_def)
  have h6: "config ?err = Some configA" by (rule config_failure)
  from retry_carries_token[OF h1 h2 h3 pricing_acceptA_nonempty h5 h6]
  obtain h' where c: "calls (onRejected testEnv ?err) =
        [SignTransaction (pricing acceptA) (resource acceptA), Request (configA\<lparr>headers := Some h'\<rparr>)]"
    and x: "map_of h' (js ''x-pay402'') = Some (js ''valid-tx-id'')"
    and o: "\<forall>k. k \<noteq> js ''x-pay402'' \<longrightarrow>
               map_of h' k = map_of (case headers configA of None \<Rightarrow> [] | Some h \<Rightarrow> h) k"
    and r: "outcome (onRejected testEnv ?err) = request testEnv (configA\<lparr>headers := Some h'\<rparr>)"
    by blast
  have a: "map_of h' (js ''Accept'') = Some (js ''application/json'')"
    and b: "map_of h' (js ''X-Trace'') = Some (js ''7'')"
    using o x_pay402_other by (simp_all add: configA_def) (simp_all add: js_def)
  have "request testEnv (configA\<lparr>headers := Some h'\<rparr>) = Fulfilled \<lparr>status = 200, data = None\<rparr>"
    using x by (simp add: testEnv_def testRequest_def)
  with r have "outcome (onRejected testEnv ?err) = Fulfilled \<lparr>status = 200, data = None\<rparr>"
    by simp
  with h1 acceptOption_A pricing_acceptA_nonempty h5 h6 c x a b show ?thesis by blast
qed

text \<open>
  Counterexample to C2 as stated: the same matched 402 on an error without
  \<open>config\<close>. The payer resolves, yet no request is reissued and the handler rejects
  with the original error.
\<close>

theorem no_config_counterexample:
  "response (failure 402 [acceptA] None)
     = Some \<lparr>status = 402, data = Some (challenge [acceptA])\<rparr> \<and>
   acceptOption (Some (challenge [acceptA])) = Some acceptA \<and>
   pricing acceptA \<noteq> [] \<and>
   signTransaction testEnv (pricing acceptA) (resource acceptA) = Fulfilled (js ''valid-tx-id'') \<and>
   calls (onRejected testEnv (failure 402 [acceptA] None))
     = [SignTransaction (pricing acceptA) (resource acceptA)] \<and>
   outcome (onRejected testEnv (failure 402 [acceptA] None))
     = Rejected (AxiosFailure (failure 402 [acceptA] None))"
proof -
  let ?err = "failure 402 [acceptA] None"
  let ?resp = "\<lparr>status = 402, data = Some (challenge [acceptA])\<rparr>"
  have h1: "response ?err = Some ?resp" by (rule response_failure)
  have h2: "status ?resp = 402" by simp
  have h3: "acceptOption (data ?resp) = Some acceptA" using acceptOption_A by simp
  have h5: "signTransaction testEnv (pricing acceptA) (resource acceptA) = Fulfilled (js ''valid-tx-id'')"
    using testSign_A by (simp add: testEnv_def)
  have h6: "config ?err = None" by (rule config_failure)
  from onRejected_sign[OF h1 h2 h3 pricing_acceptA_nonempty, of testEnv] h5 h6
  have "onRejected testEnv ?err = rejectOriginal ?err [SignTransaction (pricing acceptA) (resource acceptA)]"
    by simp
  then show ?thesis
    using h1 acceptOption_A pricing_acceptA_nonempty h5 by (simp add: rejectOriginal_def)
qed

text \<open>
  Claim C3. A 402 failure passes through when no entry of the challenge has the
  marker in its description (also when there is no body), or when the first entry
  with the marker gives no option: no amount pattern in its description, and an empty
  \<open>maxAmountRequired\<close> or \<open>asset\<close>. The handler rejects with the error it was
  given, leaves the error object as it was, and calls neither collaborator.
\<close>

theorem unmatched_402_passes_through:
  assumes "response err = Some resp" and "status resp = 402"
    and "(\<forall>d. data resp = Some d \<longrightarrow>
            (\<forall>e\<in>set (accepts d). \<not> sublist targetDescription (description e))) \<or>
         (\<exists>d pre a post. data resp = Some d \<and> accepts d = pre @ a # post \<and>
            (\<forall>e\<in>set pre. \<not> sublist targetDescription (description e)) \<and>
            sublist targetDescription (description a) \<and>
            amountMatch (description a) = None \<and>
            (maxAmountRequired a = [] \<or> asset a = []))"
  shows "outcome (onRejected env err) = Rejected (AxiosFailure err) \<and>
         calls (onRejected env err) = [] \<and>
         error_after (onRejected env err) = err"
proof -
  have "onRejected env err = rejectOriginal err []"
    using assms(3)
  proof
    assume n: "\<forall>d. data resp = Some d \<longrightarrow>
                (\<forall>e\<in>set (accepts d). \<not> sublist targetDescription (description e))"
    have "acceptOption (data resp) = None"
    proof (cases "data resp")
      case None
      then show ?thesis by (simp add: acceptOption_no_body)
    next
      case (Some d)
      with n show ?thesis by (simp add: acceptOption_none)
    qed
    with assms(1,2) show ?thesis by (rule onRejected_no_match)
  next
    assume "\<exists>d pre a post. data resp = Some d \<and> accepts d = pre @ a # post \<and>
            (\<forall>e\<in>set pre. \<not> sublist targetDescription (description e)) \<and>
            sublist targetDescription (description a) \<and>
            amountMatch (description a) = None \<and>
            (maxAmountRequired a = [] \<or> asset a = [])"
    then obtain d pre a post where d: "data resp = Some d" and s: "accepts d = pre @ a # post"
      and p: "\<forall>e\<in>set pre. \<not> sublist targetDescription (description e)"
      and m: "sublist targetDescription (description a)"
      and e: "amountMatch (description a) = None" "maxAmountRequired a = [] \<or> asset a = []"
      by blast
    have "acceptOption (data resp) = Some a"
      using d acceptOption_first[OF s p m] by simp
    moreover have "pricing a = []"
      using e by (simp add: pricing_empty_iff)
    ultimately show ?thesis
      using assms(1,2) by (simp add: onRejected_no_option)
  qed
  then show ?thesis by (simp add: rejectOriginal_def)
qed

text \<open>
  Witness for C3: scenario B of the test, and a challenge whose first entry with the
  marker gives no option although a later entry would.
\<close>

theorem unmatched_402_passes_through_witness:
  "\<not> sublist targetDescription (description acceptB) \<and>
   outcome (onRejected testEnv (failure 402 [acceptB] (Some configA)))
     = Rejected (AxiosFailure (failure 402 [acceptB] (Some configA))) \<and>
   calls (onRejected testEnv (failure 402 [acceptB] (Some configA))) = [] \<and>
   error_after (onRejected testEnv (failure 402 [acceptB] (Some configA)))
     = failure 402 [acceptB] (Some configA) \<and>
   sublist targetDescription (description acceptNoOption) \<and>
   amountMatch (description acceptNoOption) = None \<and>
   asset acceptNoOption = [] \<and>
   outcome (onRejected testEnv (failure 402 [acceptB, acceptNoOption, acceptA] (Some configA)))
     = Rejected (AxiosFailure (failure 402 [acceptB, acceptNoOption, acceptA] (Some configA))) \<and>
   calls (onRejected testEnv (failure 402 [acceptB, acceptNoOption, acceptA] (Some configA))) = [] \<and>
   error_after (onRejected testEnv (failure 402 [acceptB, acceptNoOption, acceptA] (Some configA)))
     = failure 402 [acceptB, acceptNoOption, acceptA] (Some configA)"
proof -
  let ?e1 = "failure 402 [acceptB] (Some configA)"
  let ?e2 = "failure 402 [acceptB, acceptNoOption, acceptA] (Some configA)"
  have s: "status \<lparr>status = 402, data = Some (challenge as)\<rparr> = 402" for as by simp
  have c1: "(\<forall>d. data \<lparr>status = 402, data = Some (challenge [acceptB])\<rparr> = Some d \<longrightarrow>
            (\<forall>e\<in>set (accepts d). \<not> sublist targetDescription (description e))) \<or>
         (\<exists>d pre a post. data \<lparr>status = 402, data = Some (challenge [acceptB])\<rparr> = Some d \<and>
            accepts d = pre @ a # post \<and>
            (\<forall>e\<in>set pre. \<not> sublist targetDescription (description e)) \<and>
            sublist targetDescription (description a) \<and>
            amountMatch (description a) = None \<and>
            (maxAmountRequired a = [] \<or> asset a = []))"
    using target_not_in_acceptB by (simp add: challenge_def)
  have am: "amountMatch (description acceptNoOption) = None"
    using amountMatch_target by (simp add: acceptNoOption_def)
  have as: "asset acceptNoOption = []" by (simp add: acceptNoOption_def)
  have "data \<lparr>status = 402, data = Some (challenge [acceptB, acceptNoOption, acceptA])\<rparr>
          = Some (challenge [acceptB, acceptNoOption, acceptA]) \<and>
        accepts (challenge [acceptB, acceptNoOption, acceptA]) = [acceptB] @ acceptNoOption # [acceptA] \<and>
        (\<forall>e\<in>set [acceptB]. \<not> sublist targetDescription (description e)) \<and>
        sublist targetDescription (description acceptNoOption) \<and>
        amountMatch (description acceptNoOption) = None \<and>
        (maxAmountRequired acceptNoOption = [] \<or> asset acceptNoOption = [])"
    using target_not_in_acceptB target_in_acceptNoOption am as by (simp add: challenge_def)
  then have c2: "(\<forall>d. data \<lparr>status = 402, data = Some (challenge [acceptB, acceptNoOption, acceptA])\<rparr> = Some d \<longrightarrow>
            (\<forall>e\<in>set (accepts d). \<not> sublist targetDescription (description e))) \<or>
         (\<exists>d pre a post. data \<lparr>status = 402, data = Some (challenge [acceptB, acceptNoOption, acceptA])\<rparr> = Some d \<and>
            accepts d = pre @ a # post \<and>
            (\<forall>e\<in>set pre. \<not> sublist targetDescription (description e)) \<and>
            sublist targetDescription (description a) \<and>
            amountMatch (description a) = None \<and>
            (maxAmountRequired a = [] \<or> asset a = []))"
    by blast
  note w1 = unmatched_402_passes_through[OF response_failure s c1, of testEnv]
  note w2 = unmatched_402_passes_through[OF response_failure s c2, of testEnv]
  show ?thesis
    using w1 w2 target_not_in_acceptB target_in_acceptNoOption am as by blast
qed

lemma acceptA_matched:
  "response (failure 402 [acceptA] cfg) = Some \<lparr>status = 402, data = Some (challenge [acceptA])\<rparr>"
  "status \<lparr>status = 402, data = Some (challenge [acceptA])\<rparr> = 402"
  "acceptOption (data \<lparr>status = 402, data = Some (challenge [acceptA])\<rparr>) = Some acceptA"
  using acceptOption_A by (simp_all add: response_failure)

text \<open>
  Claim C4. For a matched 402 with a non-empty option list: if the payer callback
  rejects with \<open>e\<close> (or throws it), the handler rejects with \<open>e\<close>, whatever the
  original error was; the callback is the only call made, so no request is reissued,
  and the error object is left as it was.
\<close>

theorem payer_rejection_replaces_error:
  assumes "response err = Some resp" and "status resp = 402"
    and "acceptOption (data resp) = Some a" and "pricing a \<noteq> []"
    and "signTransaction env (pricing a) (resource a) = Rejected e"
  shows "outcome (onRejected env err) = Rejected e \<and>
         calls (onRejected env err) = [SignTransaction (pricing a) (resource a)] \<and>
         error_after (onRejected env err) = err"
  using onRejected_sign[OF assms(1-4), of env] assms(5) by simp

text \<open>
  Witness for C4: scenario A with a payer that refuses; the result is the payer's
  reason and differs from the original 402 error.
\<close>

theorem payer_rejection_replaces_error_witness:
  "response (failure 402 [acceptA] (Some configA))
     = Some \<lparr>status = 402, data = Some (challenge [acceptA])\<rparr> \<and>
   acceptOption (Some (challenge [acceptA])) = Some acceptA \<and>
   pricing acceptA \<noteq> [] \<and>
   signTransaction refusingEnv (pricing acceptA) (resource acceptA)
     = Rejected (OtherFailure (js ''No suitable payment option found'')) \<and>
   outcome (onRejected refusingEnv (failure 402 [acceptA] (Some configA)))
     = Rejected (OtherFailure (js ''No suitable payment option found'')) \<and>
   outcome (onRejected refusingEnv (failure 402 [acceptA] (Some configA)))
     \<noteq> Rejected (AxiosFailure (failure 402 [acceptA] (Some configA))) \<and>
   calls (onRejected refusingEnv (failure 402 [acceptA] (Some configA)))
     = [SignTransaction (pricing acceptA) (resource acceptA)]"
proof -
  have h5: "signTransaction refusingEnv (pricing acceptA) (resource acceptA)
              = Rejected (OtherFailure (js ''No suitable payment option found''))"
    by (simp add: refusingEnv_def)
  from payer_rejection_replaces_error[OF acceptA_matched pricing_acceptA_nonempty h5]
  show ?thesis
    using acceptA_matched(1) acceptOption_A pricing_acceptA_nonempty h5 by simp
qed






text \<open>
  Claim C7. A failure without a response, or whose status is not 402, is rejected as
  it is: the handler calls neither collaborator and leaves the error object as it was.
  The body of such a response plays no part, so no option is extracted from it.
\<close>

theorem other_failures_pass_through:
  assumes "response err = None \<or> (\<exists>resp. response err = Some resp \<and> status resp \<noteq> 402)"
  shows "outcome (onRejected env err) = Rejected (AxiosFailure err) \<and>
         calls (onRejected env err) = [] \<and>
         error_after (onRejected env err) = err"
proof -
  have "onRejected env err = rejectOriginal err []"
    using assms by (auto simp: onRejected_no_response onRejected_not_402)
  then show ?thesis by (simp add: rejectOriginal_def)
qed

text \<open>
  Witness for C7: a network error without response, and a 404 whose body is the
  challenge of scenario A.
\<close>

theorem other_failures_pass_through_witness:
  "response networkError = None \<and>
   outcome (onRejected testEnv networkError) = Rejected (AxiosFailure networkError) \<and>
   calls (onRejected testEnv networkError) = [] \<and>
   error_after (onRejected testEnv networkError) = networkError \<and>
   response (failure 404 [acceptA] (Some configA))
     = Some \<lparr>status = 404, data = Some (challenge [acceptA])\<rparr> \<and>
   outcome (onRejected testEnv (failure 404 [acceptA] (Some configA)))
     = Rejected (AxiosFailure (failure 404 [acceptA] (Some configA))) \<and>
   calls (onRejected testEnv (failure 404 [acceptA] (Some configA))) = [] \<and>
   error_after (onRejected testEnv (failure 404 [acceptA] (Some configA)))
     = failure 404 [acceptA] (Some configA)"
proof -
  have n: "response networkError = None" by (simp add: networkError_def)
  then have h1: "response networkError = None \<or>
      (\<exists>resp. response networkError = Some resp \<and> status resp \<noteq> 402)" by simp
  have r: "response (failure 404 [acceptA] (Some configA))
             = Some \<lparr>status = 404, data = Some (challenge [acceptA])\<rparr>"
    by (rule response_failure)
  then have h2: "response (failure 404 [acceptA] (Some configA)) = None \<or>
      (\<exists>resp. response (failure 404 [acceptA] (Some configA)) = Some resp \<and> status resp \<noteq> 402)"
    by simp
  from other_failures_pass_through[where env = testEnv, OF h1]
       other_failures_pass_through[where env = testEnv, OF h2]
  show ?thesis using n r by simp
qed

text \<open>
  Claim C10. For a matched 402 with a non-empty option list whose error has no
  \<open>config\<close>: the payer callback is called all the same, and the handler waits for
  it (while it is pending, the handler is pending). When it resolves, the token is
  dropped: the callback stays the only call, no request is reissued, and the handler
  rejects with the original error, left as it was.
\<close>

theorem token_discarded_without_config:
  assumes "response err = Some resp" and "status resp = 402"
    and "acceptOption (data resp) = Some a" and "pricing a \<noteq> []"
    and "config err = None"
  shows "(signTransaction env (pricing a) (resource a) = Fulfilled t \<longrightarrow>
            outcome (onRejected env err) = Rejected (AxiosFailure err) \<and>
            calls (onRejected env err) = [SignTransaction (pricing a) (resource a)] \<and>
            error_after (onRejected env err) = err) \<and>
         (signTransaction env (pricing a) (resource a) = Pending \<longrightarrow>
            outcome (onRejected env err) = Pending \<and>
            calls (onRejected env err) = [SignTransaction (pricing a) (resource a)])"
  using onRejected_sign[OF assms(1-4), of env] assms(5) by (simp add: rejectOriginal_def)

text \<open>
  Witness for C10: scenario A on an error without \<open>config\<close>, with a payer that
  resolves and with one that never settles.
\<close>

theorem token_discarded_without_config_witness:
  "response (failure 402 [acceptA] None)
     = Some \<lparr>status = 402, data = Some (challenge [acceptA])\<rparr> \<and>
   acceptOption (Some (challenge [acceptA])) = Some acceptA \<and>
   pricing acceptA \<noteq> [] \<and>
   config (failure 402 [acceptA] None) = None \<and>
   signTransaction staleEnv (pricing acceptA) (resource acceptA) = Fulfilled (js ''stale'') \<and>
   outcome (onRejected staleEnv (failure 402 [acceptA] None))
     = Rejected (AxiosFailure (failure 402 [acceptA] None)) \<and>
   calls (onRejected staleEnv (failure 402 [acceptA] None))
     = [SignTransaction (pricing acceptA) (resource acceptA)] \<and>
   error_after (onRejected staleEnv (failure 402 [acceptA] None)) = failure 402 [acceptA] None \<and>
   signTransaction slowEnv (pricing acceptA) (resource acceptA) = Pending \<and>
   outcome (onRejected slowEnv (failure 402 [acceptA] None)) = Pending \<and>
   calls (onRejected slowEnv (failure 402 [acceptA] None))
     = [SignTransaction (pricing acceptA) (resource acceptA)]"
proof -
  have c: "config (failure 402 [acceptA] None) = None" by (rule config_failure)
  have s1: "signTransaction staleEnv (pricing acceptA) (resource acceptA) = Fulfilled (js ''stale'')"
    by (simp add: staleEnv_def)
  have s2: "signTransaction slowEnv (pricing acceptA) (resource acceptA) = Pending"
    by (simp add: slowEnv_def)
  from token_discarded_without_config[where env = staleEnv and t = "js ''stale''",
         OF acceptA_matched pricing_acceptA_nonempty c]
       token_discarded_without_config[where env = slowEnv and t = "[]",
         OF acceptA_matched pricing_acceptA_nonempty c]
  show ?thesis
    using acceptA_matched(1) acceptOption_A pricing_acceptA_nonempty c s1 s2 by simp
qed

lemma isAmountChar_iff: "isAmountChar c \<longleftrightarrow> isDigit c \<or> c = 0x2E"
  by (simp add: isAmountChar_def)

text \<open>
  Claim C6, as amended. The amount taken from a description that matches the pattern
  is a non-empty string of digits and full stops, with no bound on the number of full
  stops, and it is the amount of the first option, labelled \<open>PAY\<close>. For a
  description in which the pattern does not occur, the first rule adds nothing and
  does not fail: the list is what the second rule gives. The token \<open>PAY\<close> is
  matched in upper case only.
\<close>

theorem parsed_amount_shape:
  "(amountMatch (description a) = Some g \<longrightarrow>
      g \<noteq> [] \<and> (\<forall>c\<in>set g. isDigit c \<or> c = 0x2E) \<and>
      hd (pricing a) = \<lparr>amount = g, currency = js ''PAY'', option_payTo = payTo a\<rparr>) \<and>
   (amountMatch (description a) = None \<longrightarrow>
      pricing a =
        (if maxAmountRequired a \<noteq> [] \<and> asset a \<noteq> []
         then [\<lparr>amount = maxAmountRequired a,
                currency = (case extraName a of None \<Rightarrow> asset a
                            | Some n \<Rightarrow> if n = [] then asset a else n),
                option_payTo = payTo a\<rparr>]
         else [])) \<and>
   amountMatch (js ''Send 5 pay'') = None"
proof (intro conjI impI)
  assume m: "amountMatch (description a) = Some g"
  then show "g \<noteq> []" and "\<forall>c\<in>set g. isDigit c \<or> c = 0x2E"
    using amountMatch_Some_chars[OF m] by (simp_all add: isAmountChar_iff)
  then show "hd (pricing a) = \<lparr>amount = g, currency = js ''PAY'', option_payTo = payTo a\<rparr>"
    using m by (simp add: pricing_def)
next
  assume "amountMatch (description a) = None"
  then show "pricing a =
        (if maxAmountRequired a \<noteq> [] \<and> asset a \<noteq> []
         then [\<lparr>amount = maxAmountRequired a,
                currency = (case extraName a of None \<Rightarrow> asset a
                            | Some n \<Rightarrow> if n = [] then asset a else n),
                option_payTo = payTo a\<rparr>]
         else [])"
    by (simp add: pricing_def split: option.splits)
next
  show "amountMatch (js ''Send 5 pay'') = None"
    by (simp add: js_def matchAt_def isSpace_def isAmountChar_def isDigit_def)
qed

text \<open>
  Witness for C6: scenario A (amount \<open>0.066\<close>), an entry without pattern and
  without asset (no option), and scenario B (the asset option alone).
\<close>

theorem parsed_amount_shape_witness:
  "amountMatch (description acceptA) = Some (js ''0.066'') \<and>
   hd (pricing acceptA) = \<lparr>amount = js ''0.066'', currency = js ''PAY'', option_payTo = payTo acceptA\<rparr> \<and>
   isDigit 0x30 \<and> isDigit 0x36 \<and>
   amountMatch (description acceptNoOption) = None \<and>
   pricing acceptNoOption = [] \<and>
   amountMatch (description acceptB) = None \<and>
   pricing acceptB = [\<lparr>amount = js ''100'', currency = js ''0x...'', option_payTo = js ''0x123...''\<rparr>]"
proof -
  have m1: "amountMatch (description acceptA) = Some (js ''0.066'')"
    using amountMatch_descriptionA by (simp add: acceptA_def)
  have m2: "amountMatch (description acceptNoOption) = None"
    using amountMatch_target by (simp add: acceptNoOption_def)
  have m3: "amountMatch (description acceptB) = None"
    by (simp add: acceptB_def js_def matchAt_def)
  have d: "isDigit 0x30" "isDigit 0x36" by (simp_all add: isDigit_def)
  have e: "asset acceptNoOption = []" by (simp add: acceptNoOption_def)
  have b: "maxAmountRequired acceptB = js ''100''" "asset acceptB = js ''0x...''"
    "payTo acceptB = js ''0x123...''" "extraName acceptB = None" "js ''100'' \<noteq> []" "js ''0x...'' \<noteq> []"
    by (simp_all add: acceptB_def extraName_def js_def)
  from parsed_amount_shape[of acceptA "js ''0.066''"] parsed_amount_shape[of acceptNoOption "[]"]
    parsed_amount_shape[of acceptB "[]"]
  show ?thesis using m1 m2 m3 d e b by simp
qed

text \<open>
  Counterexample to C6 as stated: an entry whose description is the marker followed
  by \<open>. Send 1.2.3 PAY\<close>. It is the matched entry, the amount taken from it is
  \<open>1.2.3\<close>, with two full stops, and the payer callback receives a \<open>PAY\<close> option
  with that amount.
\<close>

lemma target_in_acceptSeveralPoints:
  "sublist targetDescription (description acceptSeveralPoints)"
  by (simp add: acceptSeveralPoints_def)

lemma amountMatch_acceptSeveralPoints:
  "amountMatch (description acceptSeveralPoints) = Some (js ''1.2.3'')"
  by (simp add: acceptSeveralPoints_def js_def targetDescription_def matchAt_def isSpace_def
        isAmountChar_def isDigit_def)

theorem several_points_counterexample:
  "sublist targetDescription (description acceptSeveralPoints) \<and>
   amountMatch (description acceptSeveralPoints) = Some (js ''1.2.3'') \<and>
   length (filter (\<lambda>c. c = 0x2E) (js ''1.2.3'')) = 2 \<and>
   calls (onRejected staleEnv (failure 402 [acceptSeveralPoints] (Some configA)))
     = [SignTransaction
          [\<lparr>amount = js ''1.2.3'', currency = js ''PAY'', option_payTo = payTo acceptA\<rparr>]
          (resource acceptA),
        Request (setPay402Header (js ''stale'') configA)]"
proof -
  have l: "length (filter (\<lambda>c. c = 0x2E) (js ''1.2.3'')) = 2"
    by (simp add: js_def)
  have a: "acceptOption (Some (challenge [acceptSeveralPoints])) = Some acceptSeveralPoints"
    using acceptOption_first[of "challenge [acceptSeveralPoints]" "[]" acceptSeveralPoints "[]"]
      target_in_acceptSeveralPoints by (simp add: challenge_def)
  have g: "js ''1.2.3'' \<noteq> []" by (simp add: js_def)
  have p: "pricing acceptSeveralPoints
     = [\<lparr>amount = js ''1.2.3'', currency = js ''PAY'', option_payTo = payTo acceptA\<rparr>]"
    using amountMatch_acceptSeveralPoints g
    by (simp add: pricing_def) (simp add: acceptSeveralPoints_def)
  have r: "resource acceptSeveralPoints = resource acceptA"
    by (simp add: acceptSeveralPoints_def)
  have m: "response (failure 402 [acceptSeveralPoints] (Some configA))
             = Some \<lparr>status = 402, data = Some (challenge [acceptSeveralPoints])\<rparr>"
    by (rule response_failure)
  have s: "signTransaction staleEnv (pricing acceptSeveralPoints) (resource acceptSeveralPoints)
             = Fulfilled (js ''stale'')"
    by (simp add: staleEnv_def)
  have n: "pricing acceptSeveralPoints \<noteq> []" by (simp add: p)
  from onRejected_sign[where env = staleEnv and a = acceptSeveralPoints, OF m _ _ n] a s
  have "calls (onRejected staleEnv (failure 402 [acceptSeveralPoints] (Some configA)))
     = [SignTransaction (pricing acceptSeveralPoints) (resource acceptSeveralPoints),
        Request (setPay402Header (js ''stale'') configA)]"
    by (simp add: config_failure)
  then show ?thesis
    using target_in_acceptSeveralPoints amountMatch_acceptSeveralPoints l by (simp add: p r)
qed

text \<open>
  Claim C8. On the path where the payer resolves and the error carries the
  configuration \<open>cfg\<close>, the reissued configuration \<open>cfg'\<close> is \<open>cfg\<close> with another
  header set and nothing else changed: \<open>url\<close>, \<open>http_method\<close>, \<open>body\<close> and every
  further field are those of \<open>cfg\<close>. The header set is the old one, or an empty one
  when there was none, with \<open>x-pay402\<close> set to the token; the entries under other
  names are the same, in the same order. The error object is changed in its
  \<open>config\<close> only.
\<close>

theorem only_the_header_changes:
  assumes "response err = Some resp" and "status resp = 402"
    and "acceptOption (data resp) = Some a" and "pricing a \<noteq> []"
    and "signTransaction env (pricing a) (resource a) = Fulfilled t"
    and "config err = Some cfg"
  shows "\<exists>cfg'. calls (onRejected env err) = [SignTransaction (pricing a) (resource a), Request cfg'] \<and>
          error_after (onRejected env err) = err\<lparr>config := Some cfg'\<rparr> \<and>
          cfg' = cfg\<lparr>headers := headers cfg'\<rparr> \<and>
          url cfg' = url cfg \<and> http_method cfg' = http_method cfg \<and> body cfg' = body cfg \<and>
          request_config.more cfg' = request_config.more cfg \<and>
          headers cfg' =
            Some (AList.update (js ''x-pay402'') t (case headers cfg of None \<Rightarrow> [] | Some h \<Rightarrow> h)) \<and>
          filter (\<lambda>kv. fst kv \<noteq> js ''x-pay402'') (case headers cfg' of None \<Rightarrow> [] | Some h \<Rightarrow> h)
            = filter (\<lambda>kv. fst kv \<noteq> js ''x-pay402'') (case headers cfg of None \<Rightarrow> [] | Some h \<Rightarrow> h)"
proof -
  let ?cfg = "setPay402Header t cfg"
  from onRejected_sign[OF assms(1-4), of env] assms(5,6)
  have "calls (onRejected env err) = [SignTransaction (pricing a) (resource a), Request ?cfg]"
    and "error_after (onRejected env err) = err\<lparr>config := Some ?cfg\<rparr>"
    by simp_all
  moreover have "?cfg = cfg\<lparr>headers := headers ?cfg\<rparr>"
    and "url ?cfg = url cfg" and "http_method ?cfg = http_method cfg" and "body ?cfg = body cfg"
    and "request_config.more ?cfg = request_config.more cfg"
    by (simp_all add: setPay402Header_def)
  moreover have "headers ?cfg =
      Some (AList.update (js ''x-pay402'') t (case headers cfg of None \<Rightarrow> [] | Some h \<Rightarrow> h))"
    by (rule setPay402Header_headers)
  moreover have "filter (\<lambda>kv. fst kv \<noteq> js ''x-pay402'') (case headers ?cfg of None \<Rightarrow> [] | Some h \<Rightarrow> h)
            = filter (\<lambda>kv. fst kv \<noteq> js ''x-pay402'') (case headers cfg of None \<Rightarrow> [] | Some h \<Rightarrow> h)"
    by (simp add: setPay402Header_headers update_filter_other)
  ultimately show ?thesis by blast
qed

text \<open>
  Witness for C8: scenario A with two headers in the original request, and with no
  header set at all.
\<close>

theorem only_the_header_changes_witness:
  "response (failure 402 [acceptA] (Some configA))
     = Some \<lparr>status = 402, data = Some (challenge [acceptA])\<rparr> \<and>
   acceptOption (Some (challenge [acceptA])) = Some acceptA \<and>
   pricing acceptA \<noteq> [] \<and>
   signTransaction testEnv (pricing acceptA) (resource acceptA) = Fulfilled (js ''valid-tx-id'') \<and>
   config (failure 402 [acceptA] (Some configA)) = Some configA \<and>
   calls (onRejected testEnv (failure 402 [acceptA] (Some configA))) =
     [SignTransaction (pricing acceptA) (resource acceptA),
      Request \<lparr>url = js ''/protected-resource-custom'', http_method = js ''get'',
               headers = Some [(js ''Accept'', js ''application/json''), (js ''X-Trace'', js ''7''),
                               (js ''x-pay402'', js ''valid-tx-id'')],
               body = None\<rparr>] \<and>
   config (failure 402 [acceptA] (Some (configA\<lparr>headers := None\<rparr>)))
     = Some (configA\<lparr>headers := None\<rparr>) \<and>
   calls (onRejected testEnv (failure 402 [acceptA] (Some (configA\<lparr>headers := None\<rparr>)))) =
     [SignTransaction (pricing acceptA) (resource acceptA),
      Request \<lparr>url = js ''/protected-resource-custom'', http_method = js ''get'',
               headers = Some [(js ''x-pay402'', js ''valid-tx-id'')],
               body = None\<rparr>]"
proof -
  let ?e1 = "failure 402 [acceptA] (Some configA)"
  let ?e2 = "failure 402 [acceptA] (Some (configA\<lparr>headers := None\<rparr>))"
  have h5: "signTransaction testEnv (pricing acceptA) (resource acceptA) = Fulfilled (js ''valid-tx-id'')"
    using testSign_A by (simp add: testEnv_def)
  have c1: "config ?e1 = Some configA" and c2: "config ?e2 = Some (configA\<lparr>headers := None\<rparr>)"
    by (simp_all add: config_failure)
  from only_the_header_changes[OF acceptA_matched pricing_acceptA_nonempty h5 c1]
  obtain cfg1 where a1: "calls (onRejected testEnv ?e1) =
        [SignTransaction (pricing acceptA) (resource acceptA), Request cfg1]"
    and b1: "cfg1 = configA\<lparr>headers := headers cfg1\<rparr>"
    and d1: "headers cfg1 = Some (AList.update (js ''x-pay402'') (js ''valid-tx-id'')
                (case headers configA of None \<Rightarrow> [] | Some h \<Rightarrow> h))"
    by blast
  from only_the_header_changes[OF acceptA_matched pricing_acceptA_nonempty h5 c2]
  obtain cfg2 where a2: "calls (onRejected testEnv ?e2) =
        [SignTransaction (pricing acceptA) (resource acceptA), Request cfg2]"
    and b2: "cfg2 = configA\<lparr>headers := None, headers := headers cfg2\<rparr>"
    and d2: "headers cfg2 = Some (AList.update (js ''x-pay402'') (js ''valid-tx-id'')
                (case headers (configA\<lparr>headers := None\<rparr>) of None \<Rightarrow> [] | Some h \<Rightarrow> h))"
    by blast
  have e1: "cfg1 = \<lparr>url = js ''/protected-resource-custom'', http_method = js ''get'',
               headers = Some [(js ''Accept'', js ''application/json''), (js ''X-Trace'', js ''7''),
                               (js ''x-pay402'', js ''valid-tx-id'')],
               body = None\<rparr>"
    by (subst b1, simp add: d1, simp add: configA_def, simp add: js_def)
  have e2: "cfg2 = \<lparr>url = js ''/protected-resource-custom'', http_method = js ''get'',
               headers = Some [(js ''x-pay402'', js ''valid-tx-id'')],
               body = None\<rparr>"
    by (subst b2, simp add: d2, simp add: configA_def)
  show ?thesis
    using acceptA_matched(1)[of "Some configA"] acceptOption_A pricing_acceptA_nonempty h5 c1 c2
      a1 a2 unfolding e1 e2 by simp
qed

text \<open>
  Claim C9. \<open>withPay402Interceptor\<close> returns the instance it was given. The
  interceptors of that instance are those it has after the fallback ran on the
  initial store, followed by the new pair: whatever the fallback registered is earlier
  in the order of registration, and in the reverse of that order (last registered
  runs first) the new pair comes before all of them.
\<close>

theorem setup_registers_after_fallback:
  "fst (withPay402Interceptor fallback inst sign wallet \<sigma>) = inst \<and>
   response_interceptors (snd (withPay402Interceptor fallback inst sign wallet \<sigma>) inst)
     = response_interceptors (fallback inst wallet \<sigma> inst) @ [Pay402Interceptor inst sign] \<and>
   rev (response_interceptors (snd (withPay402Interceptor fallback inst sign wallet \<sigma>) inst))
     = Pay402Interceptor inst sign # rev (response_interceptors (fallback inst wallet \<sigma> inst))"
  by (simp add: withPay402Interceptor_def use_def Let_def)

text \<open>
  Witness for C9: a fallback that registers one interceptor on a client that has none.
\<close>

theorem setup_registers_after_fallback_witness:
  "fst (withPay402Interceptor x402Fallback 0 ''payer'' ''wallet'' freshStore) = 0 \<and>
   response_interceptors (x402Fallback 0 ''wallet'' freshStore 0) = [OtherInterceptor ''wallet''] \<and>
   response_interceptors (snd (withPay402Interceptor x402Fallback 0 ''payer'' ''wallet'' freshStore) 0)
     = [OtherInterceptor ''wallet'', Pay402Interceptor 0 ''payer''] \<and>
   rev (response_interceptors (snd (withPay402Interceptor x402Fallback 0 ''payer'' ''wallet'' freshStore) 0))
     = [Pay402Interceptor 0 ''payer'', OtherInterceptor ''wallet'']"
proof -
  have f: "response_interceptors (x402Fallback 0 ''wallet'' freshStore 0) = [OtherInterceptor ''wallet'']"
    by (simp add: x402Fallback_def use_def freshStore_def)
  from setup_registers_after_fallback[of x402Fallback 0 "''payer''" "''wallet''" freshStore]
  show ?thesis by (simp add: f)
qed

end
